theory Spec2Isabelle
  imports Main
begin

section \<open>Data model of the tool-invocation orchestrator\<close>

text \<open>
  The orchestrator is the second module of \<^verbatim>\<open>conversations.ts\<close>
  (\<^verbatim>\<open>makeOpenAiApiChatLlm\<close> and its helpers). JavaScript values whose shape the
  module does not inspect (JSON schemas, HTTP arguments, credentials, responses) are
  values of \<open>jsval\<close>; numbers are restricted to integers.
\<close>

datatype jsval =
    JUndefined
  | JNull
  | JBool bool
  | JNum int
  | JStr string
  | JArr "jsval list"
  | JObj "(string \<times> jsval) list"

text \<open>JavaScript truthiness, as used by the conditional expressions of the module.\<close>

fun truthy :: "jsval \<Rightarrow> bool" where
  "truthy JUndefined = False"
| "truthy JNull = False"
| "truthy (JBool b) = b"
| "truthy (JNum n) = (n \<noteq> 0)"
| "truthy (JStr s) = (s \<noteq> [])"
| "truthy (JArr _) = True"
| "truthy (JObj _) = True"

text \<open>
  Modelled from the spec: \<^verbatim>\<open>FunctionDefinition\<close> is declared by the completion
  service's client library, outside the sources; the fields are the name, description
  and parameter schema of the specification's tool definition.
\<close>

record FunctionDefinition =
  name :: string
  description :: "string option"
  parameters :: jsval

text \<open>
  Modelled from the spec: \<^verbatim>\<open>PersistedFunctionDefinition\<close> is declared in the module
  \<^verbatim>\<open>./PersistedFunctionDefinition\<close>, outside the sources. It wraps the definition
  (field \<^verbatim>\<open>definition\<close>, written \<open>defn\<close>); the HTTP-backed variant
  \<^verbatim>\<open>PersistedHttpRequestFunctionDefinition\<close> carries \<^verbatim>\<open>httpVerb\<close> and \<^verbatim>\<open>path\<close>,
  which \<^verbatim>\<open>makeDynamicHttpLlmFunctionFromFunctionDefinition\<close> reads.
\<close>

record PersistedFunctionDefinition =
  defn :: FunctionDefinition
  httpVerb :: "string option"
  path :: "string option"

text \<open>
  Modelled from the spec: \<^verbatim>\<open>HttpRequestArgs\<close> and \<^verbatim>\<open>HttpApiCredentials\<close> are declared
  in the module \<^verbatim>\<open>./HttpRequestArgs\<close>, outside the sources. The first is the
  specification's static request context with its four optional fields, the second is
  opaque to the orchestrator.
\<close>

record HttpRequestArgs =
  headers :: "jsval option"
  body :: "jsval option"
  pathParameters :: "jsval option"
  queryParameters :: "jsval option"

type_synonym HttpApiCredentials = jsval

section \<open>The window of available function definitions\<close>

text \<open>
  The deduplicating \<^verbatim>\<open>filter\<close> callback of \<^verbatim>\<open>getMaxAvailableFunctionDefinitions\<close>
  closes over the mutable set \<^verbatim>\<open>uniqueFunctionNames\<close>; the set is threaded through
  the traversal.
\<close>

fun uniqueFilter ::
  "string set \<Rightarrow> PersistedFunctionDefinition list \<Rightarrow> PersistedFunctionDefinition list" where
  "uniqueFilter uniqueFunctionNames [] = []"
| "uniqueFilter uniqueFunctionNames (fxn # rest) =
     (if name (defn fxn) \<in> uniqueFunctionNames
      then uniqueFilter uniqueFunctionNames rest
      else fxn # uniqueFilter (insert (name (defn fxn)) uniqueFunctionNames) rest)"

text \<open>The local \<^verbatim>\<open>availableFunctionsCopy\<close>: base definitions first, then the carried ones.\<close>

definition availableFunctionsCopy ::
  "PersistedFunctionDefinition list \<Rightarrow> PersistedFunctionDefinition list
   \<Rightarrow> PersistedFunctionDefinition list" where
  "availableFunctionsCopy availableFunctionDefinitions baseFunctionDefinitions =
     uniqueFilter {} (baseFunctionDefinitions @ availableFunctionDefinitions)"

text \<open>
  The second \<^verbatim>\<open>filter\<close> callback closes over \<^verbatim>\<open>counter\<close>, incremented on every
  element. \<^verbatim>\<open>Array.prototype.find\<close> yields the element or \<^verbatim>\<open>undefined\<close>, and the
  negation of an object is \<^verbatim>\<open>false\<close>.
\<close>

fun counterFilter ::
  "int \<Rightarrow> PersistedFunctionDefinition list \<Rightarrow> nat \<Rightarrow> PersistedFunctionDefinition list
   \<Rightarrow> PersistedFunctionDefinition list" where
  "counterFilter maxNumDynamicFunctions baseFunctionDefinitions counter [] = []"
| "counterFilter maxNumDynamicFunctions baseFunctionDefinitions counter (llmFunc # rest) =
     (let toInclude =
            (int counter \<le> maxNumDynamicFunctions \<or>
             find (\<lambda>baseFunc. name (defn baseFunc) = name (defn llmFunc))
                  baseFunctionDefinitions = None)
      in (if toInclude then [llmFunc] else []) @
         counterFilter maxNumDynamicFunctions baseFunctionDefinitions (Suc counter) rest)"

definition getMaxAvailableFunctionDefinitions ::
  "PersistedFunctionDefinition list \<Rightarrow> PersistedFunctionDefinition list \<Rightarrow> int
   \<Rightarrow> PersistedFunctionDefinition list" where
  "getMaxAvailableFunctionDefinitions availableFunctionDefinitions baseFunctionDefinitions
       maxNumDynamicFunctions =
     (let copy = availableFunctionsCopy availableFunctionDefinitions baseFunctionDefinitions
      in if int (length availableFunctionDefinitions) > maxNumDynamicFunctions
         then rev (counterFilter maxNumDynamicFunctions baseFunctionDefinitions 0 (rev copy))
         else copy)"

section \<open>Functions offered to the model\<close>

text \<open>
  The \<^verbatim>\<open>function\<close> field of \<^verbatim>\<open>ChatGptLlmFunction\<close> holds a closure. The module
  builds exactly two kinds: the caller's catalog resolver (\<^verbatim>\<open>makeFindApiSpecAction\<close>)
  and the closure of \<^verbatim>\<open>makeDynamicHttpLlmFunctionFromFunctionDefinition\<close>, which
  captures the definition, the static request arguments and the credentials.
\<close>

datatype llm_callable =
    FindApiSpecFunction
  | DynamicHttpFunction PersistedFunctionDefinition HttpRequestArgs HttpApiCredentials

text \<open>
  \<^verbatim>\<open>ChatGptLlmFunction\<close>; \<^verbatim>\<open>function\<close> is written \<open>func\<close>, \<^verbatim>\<open>name\<close> is written
  \<open>llmName\<close>, and the optional \<^verbatim>\<open>dynamic\<close> is \<open>None\<close> when the property is absent.
\<close>

record ChatGptLlmFunction =
  persistedFunction :: PersistedFunctionDefinition
  func :: llm_callable
  dynamic :: "bool option"
  llmName :: string

datatype ChatRole = RoleSystem | RoleUser | RoleAssistant | RoleFunction

record FunctionCall =
  callName :: string
  arguments :: string

text \<open>
  Modelled from the spec: \<^verbatim>\<open>OpenAiChatMessage\<close> is declared in the module
  \<^verbatim>\<open>./ChatLlm\<close>, outside the sources. It is the client library's \<^verbatim>\<open>ChatMessage\<close>
  (role, content, name, pending function call) with the optional \<^verbatim>\<open>functions\<close>
  snapshot, the specification's \<^verbatim>\<open>activeTools\<close>. The snapshot is written
  \<open>msgFunctions\<close> and the message's \<^verbatim>\<open>name\<close> is \<open>msgName\<close>. A \<^verbatim>\<open>ChatMessage\<close> is
  the same record with no snapshot; the casts of the source do nothing at run time.
\<close>

record OpenAiChatMessage =
  role :: ChatRole
  content :: "string option"
  msgName :: "string option"
  functionCall :: "FunctionCall option"
  msgFunctions :: "PersistedFunctionDefinition list option"

type_synonym ChatMessage = OpenAiChatMessage

record ChatChoice =
  message :: "ChatMessage option"

record ChatCompletions =
  choices :: "ChatChoice list"

record GetChatCompletionsOptions =
  optFunctions :: "FunctionDefinition list option"
  optFunctionCall :: "string option"
  otherOptions :: jsval

text \<open>
  The argument object the dynamic closure builds for \<^verbatim>\<open>executeHttpApiRequest\<close>. The
  closure's parameter is declared an \<^verbatim>\<open>HttpRequestArgs\<close>, but the field holds whatever
  the caller hands the closure (\<^verbatim>\<open>function: (args: any) => ...\<close>).
\<close>

record ExecuteHttpApiRequestArgs =
  reqHttpVerb :: "string option"
  resourcePath :: "string option"
  staticHttpRequestArgs :: HttpRequestArgs
  dynamicHttpRequestArgs :: jsval
  apiCredentials :: HttpApiCredentials

text \<open>
  What a \<^verbatim>\<open>function\<close> closure resolves to (\<^verbatim>\<open>Promise<unknown>\<close>): a JSON-like
  value, or the resolver's list of definitions.
\<close>

datatype unknown =
    Value jsval
  | Definitions "PersistedFunctionDefinition list"

section \<open>External collaborators and errors\<close>

text \<open>
  The collaborators the module calls but does not define: the completion client, the
  catalog resolver, the HTTP executor (each may reject, \<open>Inl\<close> carrying the reason),
  \<^verbatim>\<open>JSON.parse\<close> (\<open>None\<close> for a \<^verbatim>\<open>SyntaxError\<close>), \<^verbatim>\<open>JSON.stringify\<close> (\<open>None\<close>
  for \<^verbatim>\<open>undefined\<close>) and \<^verbatim>\<open>yaml.stringify\<close>.
\<close>

record externals =
  getChatCompletions ::
    "string \<Rightarrow> OpenAiChatMessage list \<Rightarrow> GetChatCompletionsOptions \<Rightarrow> jsval + ChatCompletions"
  findApiSpecFunctionDefinition :: "jsval \<Rightarrow> jsval + PersistedFunctionDefinition list"
  executeHttpApiRequest :: "ExecuteHttpApiRequestArgs \<Rightarrow> jsval + jsval"
  JSON_parse :: "string \<Rightarrow> jsval option"
  JSON_stringify :: "unknown \<Rightarrow> string option"
  yaml_stringify :: "jsval \<Rightarrow> string"

text \<open>Every external call a turn makes is recorded, in order.\<close>

datatype external_call =
    ChatCompletionsCall string "OpenAiChatMessage list" GetChatCompletionsOptions
  | FindApiSpecCall jsval
  | HttpApiRequestCall ExecuteHttpApiRequestArgs

datatype error =
    LastMessageUndefined
      \<comment> \<open>\<^verbatim>\<open>TypeError\<close>: reading \<^verbatim>\<open>functions\<close> of \<^verbatim>\<open>messages[-1]\<close>, which is \<^verbatim>\<open>undefined\<close>\<close>
  | NoMessageReturned
      \<comment> \<open>\<^verbatim>\<open>Error("No message returned from OpenAI API")\<close>\<close>
  | AssertionError
  | SyntaxError
  | Rejected jsval
      \<comment> \<open>an external call rejected\<close>
  | NotDefinitions
      \<comment> \<open>a resolver response that is not a list of definitions, used as one\<close>

type_synonym 'a outcome = "(error + 'a) \<times> external_call list"

section \<open>Strings\<close>

text \<open>\<^verbatim>\<open>Array.prototype.join\<close> on strings.\<close>

fun join :: "string \<Rightarrow> string list \<Rightarrow> string" where
  "join sep [] = []"
| "join sep [x] = x"
| "join sep (x # y # ys) = x @ sep @ join sep (y # ys)"

text \<open>
  A string is the UTF-8 byte sequence of the JavaScript string. \<^verbatim>\<open>trim\<close> and
  \<^verbatim>\<open>trimEnd\<close> strip the white space and line terminators of the language: U+0009 to
  U+000D, U+0020, U+00A0, U+1680, U+2000 to U+200A, U+2028, U+2029, U+202F, U+205F,
  U+3000 and U+FEFF, here by their encodings.
\<close>

definition whiteSpace :: "string list" where
  "whiteSpace =
     [[CHR 0x09], [CHR 0x0A], [CHR 0x0B], [CHR 0x0C], [CHR 0x0D], [CHR 0x20],
      [CHR 0xC2, CHR 0xA0],
      [CHR 0xE1, CHR 0x9A, CHR 0x80],
      [CHR 0xE2, CHR 0x80, CHR 0x80], [CHR 0xE2, CHR 0x80, CHR 0x81],
      [CHR 0xE2, CHR 0x80, CHR 0x82], [CHR 0xE2, CHR 0x80, CHR 0x83],
      [CHR 0xE2, CHR 0x80, CHR 0x84], [CHR 0xE2, CHR 0x80, CHR 0x85],
      [CHR 0xE2, CHR 0x80, CHR 0x86], [CHR 0xE2, CHR 0x80, CHR 0x87],
      [CHR 0xE2, CHR 0x80, CHR 0x88], [CHR 0xE2, CHR 0x80, CHR 0x89],
      [CHR 0xE2, CHR 0x80, CHR 0x8A],
      [CHR 0xE2, CHR 0x80, CHR 0xA8], [CHR 0xE2, CHR 0x80, CHR 0xA9],
      [CHR 0xE2, CHR 0x80, CHR 0xAF],
      [CHR 0xE2, CHR 0x81, CHR 0x9F],
      [CHR 0xE3, CHR 0x80, CHR 0x80],
      [CHR 0xEF, CHR 0xBB, CHR 0xBF]]"

text \<open>The rest of a string after a given prefix, if it starts with it.\<close>

fun stripPrefix :: "string \<Rightarrow> string \<Rightarrow> string option" where
  "stripPrefix [] s = Some s"
| "stripPrefix (p # ps) [] = None"
| "stripPrefix (p # ps) (c # cs) = (if p = c then stripPrefix ps cs else None)"

fun stripAny :: "string list \<Rightarrow> string \<Rightarrow> string option" where
  "stripAny [] s = None"
| "stripAny (w # ws) s =
     (case stripPrefix w s of Some r \<Rightarrow> Some r | None \<Rightarrow> stripAny ws s)"

text \<open>Stripping leading code points of a set given by its encodings, none of them empty.\<close>

function trimStartBy :: "string list \<Rightarrow> string \<Rightarrow> string" where
  "trimStartBy ws s =
     (case stripAny ws s of
        None \<Rightarrow> s
      | Some r \<Rightarrow> if length r < length s then trimStartBy ws r else s)"
  by pat_completeness auto
termination
  by (relation "measure (\<lambda>(ws, s). length s)") auto

declare trimStartBy.simps [simp del]

definition trimEnd :: "string \<Rightarrow> string" where
  "trimEnd s = rev (trimStartBy (map rev whiteSpace) (rev s))"

definition trim :: "string \<Rightarrow> string" where
  "trim s = trimStartBy whiteSpace (trimEnd s)"

section \<open>Building the available functions\<close>

definition find_api_spec_action :: string where
  "find_api_spec_action = ''find_api_spec_action''"

definition makeFindApiSpecAction :: ChatGptLlmFunction where
  "makeFindApiSpecAction =
     \<lparr> persistedFunction =
         \<lparr> defn =
             \<lparr> name = find_api_spec_action,
               description = Some ''Find an action in the API spec'',
               parameters =
                 JObj [(''type'', JStr ''object''),
                       (''properties'',
                          JObj [(''query'',
                                 JObj [(''type'', JStr ''string''),
                                       (''description'', JStr ''repeat the user's query'')])]),
                       (''required'', JArr [JStr ''query''])] \<rparr>,
           httpVerb = None,
           path = None \<rparr>,
       func = FindApiSpecFunction,
       dynamic = None,
       llmName = find_api_spec_action \<rparr>"

definition baseFunctions :: "ChatGptLlmFunction list" where
  "baseFunctions = [makeFindApiSpecAction]"

definition makeDynamicHttpLlmFunctionFromFunctionDefinition ::
  "PersistedFunctionDefinition \<Rightarrow> HttpRequestArgs \<Rightarrow> HttpApiCredentials \<Rightarrow> ChatGptLlmFunction" where
  "makeDynamicHttpLlmFunctionFromFunctionDefinition persistedFunctionDefinition
       staticArgs credentials =
     \<lparr> persistedFunction = persistedFunctionDefinition,
       func = DynamicHttpFunction persistedFunctionDefinition staticArgs credentials,
       dynamic = Some True,
       llmName = name (defn persistedFunctionDefinition) \<rparr>"

definition makeAvailableLlmFunctionsFromFunctionDefinitions ::
  "PersistedFunctionDefinition list \<Rightarrow> ChatGptLlmFunction list \<Rightarrow> HttpRequestArgs \<Rightarrow> int
   \<Rightarrow> HttpApiCredentials \<Rightarrow> ChatGptLlmFunction list" where
  "makeAvailableLlmFunctionsFromFunctionDefinitions functionDefinitions baseLlmFunctions
       staticArgs maxNumDynamicFunctions credentials =
     map (\<lambda>functionDefinition.
            case find (\<lambda>baseFunction. llmName baseFunction = name (defn functionDefinition))
                      baseLlmFunctions of
              Some baseLlmFunction \<Rightarrow> baseLlmFunction
            | None \<Rightarrow>
                makeDynamicHttpLlmFunctionFromFunctionDefinition functionDefinition
                  staticArgs credentials)
         (getMaxAvailableFunctionDefinitions functionDefinitions
            (map persistedFunction baseLlmFunctions) maxNumDynamicFunctions)"

text \<open>
  Calling a \<^verbatim>\<open>function\<close> closure with the argument it is handed. The dynamic closure
  takes verb and path from the captured definition and passes its argument on as
  \<^verbatim>\<open>dynamicHttpRequestArgs\<close>.
\<close>

definition callFunction :: "externals \<Rightarrow> llm_callable \<Rightarrow> jsval \<Rightarrow> unknown outcome" where
  "callFunction ext f args =
     (case f of
        FindApiSpecFunction \<Rightarrow>
          (case findApiSpecFunctionDefinition ext args of
             Inl reason \<Rightarrow> Inl (Rejected reason)
           | Inr found \<Rightarrow> Inr (Definitions found),
           [FindApiSpecCall args])
      | DynamicHttpFunction persistedFunctionDefinition staticArgs credentials \<Rightarrow>
          (let request =
                 \<lparr> reqHttpVerb = httpVerb persistedFunctionDefinition,
                   resourcePath = path persistedFunctionDefinition,
                   staticHttpRequestArgs = staticArgs,
                   dynamicHttpRequestArgs = args,
                   apiCredentials = credentials \<rparr>
           in (case executeHttpApiRequest ext request of
                 Inl reason \<Rightarrow> Inl (Rejected reason)
               | Inr response \<Rightarrow> Inr (Value response),
               [HttpApiRequestCall request])))"

section \<open>Reading the completion service's response\<close>

text \<open>\<^verbatim>\<open>choices[0]\<close> is \<^verbatim>\<open>undefined\<close> exactly when the array is empty.\<close>

definition getChatMessageFromOpenAiResponse :: "ChatCompletions \<Rightarrow> error + ChatMessage" where
  "getChatMessageFromOpenAiResponse chatChatCompletions =
     (case choices chatChatCompletions of
        [] \<Rightarrow> Inl NoMessageReturned
      | choice # _ \<Rightarrow>
          (case message choice of
             None \<Rightarrow> Inl NoMessageReturned
           | Some m \<Rightarrow> Inr m))"

section \<open>The system prompt\<close>

text \<open>
  One labelled block of the context, present when the field is truthy:
  \<^verbatim>\<open>field ? "Title:\n" + yaml.stringify(field).trim() + "\n" : ""\<close>.
\<close>

definition contextBlock :: "externals \<Rightarrow> string \<Rightarrow> jsval option \<Rightarrow> string" where
  "contextBlock ext title field =
     (case field of
        None \<Rightarrow> []
      | Some v \<Rightarrow>
          if truthy v then title @ ''\<newline>'' @ trim (yaml_stringify ext v) @ ''\<newline>''
          else [])"

definition makeUserSystemPromptContext :: "externals \<Rightarrow> HttpRequestArgs \<Rightarrow> string" where
  "makeUserSystemPromptContext ext staticArgs =
     trimEnd
       (''The following information is available for you to use for calling functions:\<newline>'' @
        contextBlock ext ''Headers:'' (headers staticArgs) @
        contextBlock ext ''Request body:'' (body staticArgs) @
        contextBlock ext ''Path parameters:'' (pathParameters staticArgs) @
        contextBlock ext ''Query parameters:'' (queryParameters staticArgs) @
        ''\<newline>  '')"

definition toolUsageInstructions :: "string list \<Rightarrow> string" where
  "toolUsageInstructions names =
     ''Call the functions '' @ join '', '' names @
     '' only when you have all necessary parameters to complete the action.\<newline>'' @
     ''If you don't yet have all the necessary information, continue asking the user for more information until you have it all.\<newline>'' @
     ''If you have the necessary information, call the function and then append the function's response to the conversation.''"

definition makeSystemPrompt ::
  "externals \<Rightarrow> string \<Rightarrow> ChatGptLlmFunction list \<Rightarrow> HttpRequestArgs option \<Rightarrow> string" where
  "makeSystemPrompt ext baseSystemPrompt currentFunctions staticArgs =
     (let dynamicFuncs = filter (\<lambda>f. dynamic f = Some True) currentFunctions;
          systemPrompt =
            (if length dynamicFuncs > 0
             then baseSystemPrompt @
                  toolUsageInstructions
                    (map (\<lambda>f. name (defn (persistedFunction f))) dynamicFuncs)
             else baseSystemPrompt)
      in case staticArgs of
           None \<Rightarrow> systemPrompt
         | Some args \<Rightarrow> systemPrompt @ ''\<newline>'' @ makeUserSystemPromptContext ext args)"

section \<open>Rebuilding the conversation\<close>

text \<open>\<^verbatim>\<open>if (query)\<close>: an absent query and the empty string are both falsy.\<close>

definition truthyQuery :: "string option \<Rightarrow> bool" where
  "truthyQuery query = (case query of None \<Rightarrow> False | Some q \<Rightarrow> q \<noteq> [])"

definition updateConversationWithNewSystemPrompt ::
  "externals \<Rightarrow> string \<Rightarrow> ChatGptLlmFunction list \<Rightarrow> OpenAiChatMessage list
   \<Rightarrow> string option \<Rightarrow> HttpRequestArgs option \<Rightarrow> OpenAiChatMessage list" where
  "updateConversationWithNewSystemPrompt ext baseSystemPrompt availableLlmFunctions messages
       query staticArgs =
     (let currentMessages =
            \<lparr> role = RoleSystem,
              content = Some (makeSystemPrompt ext baseSystemPrompt availableLlmFunctions
                                staticArgs),
              msgName = None, functionCall = None, msgFunctions = None \<rparr>
            # filter (\<lambda>m. role m \<noteq> RoleSystem) messages
      in if truthyQuery query
         then currentMessages @
              [\<lparr> role = RoleUser, content = query,
                 msgName = None, functionCall = None, msgFunctions = None \<rparr>]
         else currentMessages)"

text \<open>
  The same function over a store of arrays, an array's address being its index in the
  store: \<^verbatim>\<open>filter\<close> and the array literal each allocate, \<^verbatim>\<open>push\<close> writes in place.
\<close>

type_synonym store = "OpenAiChatMessage list list"

definition allocArray :: "store \<Rightarrow> OpenAiChatMessage list \<Rightarrow> store \<times> nat" where
  "allocArray h xs = (h @ [xs], length h)"

definition pushArray :: "store \<Rightarrow> nat \<Rightarrow> OpenAiChatMessage \<Rightarrow> store" where
  "pushArray h r x = h[r := h ! r @ [x]]"

definition updateConversationWithNewSystemPrompt_store ::
  "externals \<Rightarrow> string \<Rightarrow> ChatGptLlmFunction list \<Rightarrow> store \<Rightarrow> nat
   \<Rightarrow> string option \<Rightarrow> HttpRequestArgs option \<Rightarrow> store \<times> nat" where
  "updateConversationWithNewSystemPrompt_store ext baseSystemPrompt availableLlmFunctions h
       messages query staticArgs =
     (let (h1, filtered) = allocArray h (filter (\<lambda>m. role m \<noteq> RoleSystem) (h ! messages));
          (h2, currentMessages) =
            allocArray h1
              (\<lparr> role = RoleSystem,
                 content = Some (makeSystemPrompt ext baseSystemPrompt availableLlmFunctions
                                   staticArgs),
                 msgName = None, functionCall = None, msgFunctions = None \<rparr>
               # h1 ! filtered)
      in if truthyQuery query
         then (pushArray h2 currentMessages
                 \<lparr> role = RoleUser, content = query,
                   msgName = None, functionCall = None, msgFunctions = None \<rparr>,
               currentMessages)
         else (h2, currentMessages))"

section \<open>Dispatching a function call\<close>

definition foundFunctionsContent :: "PersistedFunctionDefinition list \<Rightarrow> string" where
  "foundFunctionsContent apiSpecActions =
     (if length apiSpecActions \<noteq> 0
      then ''Found the following function(s) to use:\<newline>- '' @
           join ''\<newline>- '' (map (\<lambda>axn. name (defn axn)) apiSpecActions) @
           ''\<newline>\<newline>They have been added to your set of available functions. Execute the function if you have sufficient data. If you need more data, ask the user for it.''
      else ''No function found in the API spec. Try asking the user for more information.'')"

text \<open>
  \<^verbatim>\<open>typeof functionResponse === "string" ? functionResponse : JSON.stringify(functionResponse)\<close>
\<close>

definition responseContent :: "externals \<Rightarrow> unknown \<Rightarrow> string option" where
  "responseContent ext functionResponse =
     (case functionResponse of
        Value (JStr s) \<Rightarrow> Some s
      | _ \<Rightarrow> JSON_stringify ext functionResponse)"

text \<open>
  The dynamic branch hands the closure \<^verbatim>\<open>functionCall.arguments\<close>, a string, as it is;
  the catalog branch hands it \<^verbatim>\<open>JSON.parse\<close> of that string. \<^verbatim>\<open>push\<close> appends to
  \<^verbatim>\<open>newMessages\<close>, which is returned. The catalog branch reads the closure's answer
  as a list of definitions through an unchecked cast; an answer of the other kind is the
  error \<open>NotDefinitions\<close> here, and no function that a turn builds gives one.
\<close>

definition handleOpenAiFunctionCall ::
  "externals \<Rightarrow> ChatMessage \<Rightarrow> ChatGptLlmFunction list \<Rightarrow> OpenAiChatMessage list
   \<Rightarrow> OpenAiChatMessage list outcome" where
  "handleOpenAiFunctionCall ext responseMessage availableLlmFunctions newMessages =
     (case functionCall responseMessage of
        None \<Rightarrow> (Inl AssertionError, [])
      | Some call \<Rightarrow>
          (case find (\<lambda>f. name (defn (persistedFunction f)) = callName call)
                     availableLlmFunctions of
             None \<Rightarrow> (Inr newMessages, [])
           | Some functionToCall \<Rightarrow>
               if dynamic functionToCall = Some True then
                 (case callFunction ext (func functionToCall) (JStr (arguments call)) of
                    (Inl e, calls) \<Rightarrow> (Inl e, calls)
                  | (Inr functionResponse, calls) \<Rightarrow>
                      (Inr (newMessages @
                            [responseMessage,
                             \<lparr> role = RoleFunction,
                               content = responseContent ext functionResponse,
                               msgName = Some (llmName functionToCall),
                               functionCall = None,
                               msgFunctions =
                                 Some (map persistedFunction availableLlmFunctions) \<rparr>]),
                       calls))
               else if llmName functionToCall = find_api_spec_action then
                 (case JSON_parse ext (arguments call) of
                    None \<Rightarrow> (Inl SyntaxError, [])
                  | Some parsed \<Rightarrow>
                      (case callFunction ext (func functionToCall) parsed of
                         (Inl e, calls) \<Rightarrow> (Inl e, calls)
                       | (Inr (Value _), calls) \<Rightarrow> (Inl NotDefinitions, calls)
                       | (Inr (Definitions apiSpecActions), calls) \<Rightarrow>
                           (Inr (newMessages @
                                 [responseMessage,
                                  \<lparr> role = RoleFunction,
                                    content = Some (foundFunctionsContent apiSpecActions),
                                    msgName = Some (llmName functionToCall),
                                    functionCall = None,
                                    msgFunctions =
                                      Some (map persistedFunction availableLlmFunctions @
                                            apiSpecActions) \<rparr>]),
                            calls)))
               else (Inr newMessages, [])))"

section \<open>One turn\<close>

text \<open>
  The parameters of \<^verbatim>\<open>makeOpenAiApiChatLlm\<close> (\<^verbatim>\<open>OpenAiApiChatParams\<close>); the client
  and the resolver are externals.
\<close>

record OpenAiApiChatParams =
  deploymentName :: string
  systemPromptPersonality :: string
  maxNumDynamicFunctions :: "int option"

text \<open>
  Modelled from the spec: \<^verbatim>\<open>ApiChatLlmAnswerAwaitedParams\<close> is declared in the module
  \<^verbatim>\<open>./ApiChatLlm\<close>, outside the sources; its fields are the ones \<^verbatim>\<open>answerAwaited\<close>
  destructures (\<^verbatim>\<open>staticHttpRequestArgs\<close> and \<^verbatim>\<open>apiCredentials\<close> are written
  \<open>staticArgsParam\<close> and \<open>credentialsParam\<close>).
\<close>

record ApiChatLlmAnswerAwaitedParams =
  query :: "string option"
  messages :: "OpenAiChatMessage list"
  options :: GetChatCompletionsOptions
  staticArgsParam :: "HttpRequestArgs option"
  credentialsParam :: HttpApiCredentials

definition baseSystemPrompt :: "OpenAiApiChatParams \<Rightarrow> string" where
  "baseSystemPrompt params =
     systemPromptPersonality params @
     ''\<newline>  Use the find_api_spec_action function to find an action in the API spec when the user asks you to perform an action.'' @
     ''\<newline>  If none of the available functions match the user's query, use this function.'' @
     ''\<newline>  Before performing an action, ask the user for any missing required parameters.'' @
     ''\<newline>  Before performing a POST, DELETE, PUT, or PATCH function, ask the user to confirm that they want to perform the action.'' @
     ''\<newline>  ''"

definition emptyHttpRequestArgs :: HttpRequestArgs where
  "emptyHttpRequestArgs =
     \<lparr> headers = None, body = None, pathParameters = None, queryParameters = None \<rparr>"

text \<open>
  \<^verbatim>\<open>messages[messages.length - 1].functions ?? []\<close>: on an empty array the element is
  \<^verbatim>\<open>undefined\<close> and reading its property throws.
\<close>

definition lastMessageFunctions ::
  "OpenAiChatMessage list \<Rightarrow> error + PersistedFunctionDefinition list" where
  "lastMessageFunctions msgs =
     (if msgs = [] then Inl LastMessageUndefined
      else Inr (case msgFunctions (last msgs) of None \<Rightarrow> [] | Some fs \<Rightarrow> fs))"

text \<open>
  The call of \<^verbatim>\<open>makeAvailableLlmFunctionsFromFunctionDefinitions\<close> in
  \<^verbatim>\<open>answerAwaited\<close>, with the defaults \<^verbatim>\<open>staticHttpRequestArgs ?? {}\<close> and
  \<^verbatim>\<open>maxNumDynamicFunctions = 3\<close>.
\<close>

definition availableLlmFunctionsOf ::
  "int option \<Rightarrow> HttpRequestArgs option \<Rightarrow> HttpApiCredentials
   \<Rightarrow> PersistedFunctionDefinition list \<Rightarrow> ChatGptLlmFunction list" where
  "availableLlmFunctionsOf maxNum staticArgs credentials carried =
     makeAvailableLlmFunctionsFromFunctionDefinitions carried baseFunctions
       (case staticArgs of None \<Rightarrow> emptyHttpRequestArgs | Some a \<Rightarrow> a)
       (case maxNum of None \<Rightarrow> 3 | Some n \<Rightarrow> n)
       credentials"

definition answerAwaited ::
  "externals \<Rightarrow> OpenAiApiChatParams \<Rightarrow> ApiChatLlmAnswerAwaitedParams
   \<Rightarrow> OpenAiChatMessage list outcome" where
  "answerAwaited ext params req =
     (case lastMessageFunctions (messages req) of
        Inl e \<Rightarrow> (Inl e, [])
      | Inr carried \<Rightarrow>
          (let availableLlmFunctions =
                 availableLlmFunctionsOf (maxNumDynamicFunctions params)
                   (staticArgsParam req) (credentialsParam req) carried;
               newMessages =
                 updateConversationWithNewSystemPrompt ext (baseSystemPrompt params)
                   availableLlmFunctions (messages req) (query req) (staticArgsParam req);
               messageOptions =
                 (options req)
                   \<lparr> optFunctions :=
                       Some (map (\<lambda>f. defn (persistedFunction f)) availableLlmFunctions),
                     optFunctionCall := Some ''auto'' \<rparr>;
               messagesForOpenAi = map (\<lambda>m. m\<lparr> msgFunctions := None \<rparr>) newMessages;
               completion =
                 ChatCompletionsCall (deploymentName params) messagesForOpenAi messageOptions
           in case getChatCompletions ext (deploymentName params) messagesForOpenAi
                     messageOptions of
                Inl reason \<Rightarrow> (Inl (Rejected reason), [completion])
              | Inr response \<Rightarrow>
                  (case getChatMessageFromOpenAiResponse response of
                     Inl e \<Rightarrow> (Inl e, [completion])
                   | Inr responseMessage \<Rightarrow>
                       if functionCall responseMessage \<noteq> None then
                         (case handleOpenAiFunctionCall ext responseMessage
                                 availableLlmFunctions newMessages of
                            (result, calls) \<Rightarrow> (result, completion # calls))
                       else
                         (Inr (newMessages @
                               [responseMessage
                                  \<lparr> msgFunctions :=
                                      Some (map persistedFunction availableLlmFunctions) \<rparr>]),
                          [completion]))))"

section \<open>The window as the specification words it\<close>

text \<open>
  Deduplication by name keeping the first occurrence: the element at position \<open>i\<close>
  stays when no earlier position holds its name.
\<close>

definition spec_dedupByName ::
  "PersistedFunctionDefinition list \<Rightarrow> PersistedFunctionDefinition list" where
  "spec_dedupByName tools =
     map (\<lambda>i. tools ! i)
       (filter (\<lambda>i. name (defn (tools ! i)) \<notin> (\<lambda>t. name (defn t)) ` set (take i tools))
          [0..<length tools])"

text \<open>
  The eviction pass: the list is read in reverse, each tool paired with the value of a
  counter that starts at 0 and grows by one per tool; a tool is included when the counter
  is at most \<open>maxDynamic\<close> or the tool is not a base tool; the result is reversed back.
\<close>

definition spec_evictionPass ::
  "PersistedFunctionDefinition list \<Rightarrow> int \<Rightarrow> PersistedFunctionDefinition list
   \<Rightarrow> PersistedFunctionDefinition list" where
  "spec_evictionPass baseTools maxDynamic tools =
     rev (map snd
            (filter (\<lambda>(counter, tool). int counter \<le> maxDynamic \<or> tool \<notin> set baseTools)
               (enumerate 0 (rev tools))))"

definition spec_computeActiveTools ::
  "PersistedFunctionDefinition list \<Rightarrow> PersistedFunctionDefinition list \<Rightarrow> int
   \<Rightarrow> PersistedFunctionDefinition list" where
  "spec_computeActiveTools lastActiveTools baseTools maxDynamic =
     (let merged = spec_dedupByName (baseTools @ lastActiveTools)
      in if int (length lastActiveTools) > maxDynamic
         then spec_evictionPass baseTools maxDynamic merged
         else merged)"

section \<open>Concrete scenarios\<close>

text \<open>An HTTP-backed definition as the catalog resolver returns it.\<close>

definition httpTool :: "string \<Rightarrow> PersistedFunctionDefinition" where
  "httpTool n =
     \<lparr> defn = \<lparr> name = n, description = None, parameters = JObj [] \<rparr>,
       httpVerb = Some ''GET'',
       path = Some (''/'' @ n) \<rparr>"

definition travelQuery :: jsval where
  "travelQuery = JObj [(''query'', JStr ''travel'')]"

definition parisArguments :: jsval where
  "parisArguments = JObj [(''queryParameters'', JObj [(''city'', JStr ''Paris'')])]"

definition weatherResponse :: jsval where
  "weatherResponse = JObj [(''temperature'', JNum 21)]"

definition acceptHeaders :: jsval where
  "acceptHeaders = JObj [(''Accept'', JStr ''json'')]"

text \<open>
  Collaborators for the scenarios: a completion service that answers with no choice, a
  resolver that knows two tools for the travel query, an HTTP executor with one fixed
  response, and stand-ins for the JSON and YAML functions that agree with them on the
  texts the scenarios use.
\<close>

definition scenarioExternals :: externals where
  "scenarioExternals =
     \<lparr> getChatCompletions = (\<lambda>deployment msgs opts. Inr \<lparr> choices = [] \<rparr>),
       findApiSpecFunctionDefinition =
         (\<lambda>q. if q = travelQuery then Inr [httpTool ''getWeather'', httpTool ''bookFlight'']
               else Inr []),
       executeHttpApiRequest = (\<lambda>request. Inr weatherResponse),
       JSON_parse =
         (\<lambda>text. if text = ''{\"query\":\"travel\"}'' then Some travelQuery
                  else if text = ''{\"queryParameters\":{\"city\":\"Paris\"}}''
                  then Some parisArguments
                  else None),
       JSON_stringify =
         (\<lambda>v. if v = Value weatherResponse then Some ''{\"temperature\":21}'' else None),
       yaml_stringify =
         (\<lambda>v. if v = acceptHeaders then ''Accept: json\<newline>'' else []) \<rparr>"

definition defaultParams :: OpenAiApiChatParams where
  "defaultParams =
     \<lparr> deploymentName = ''deployment'',
       systemPromptPersonality = ''You are helpful.'',
       maxNumDynamicFunctions = None \<rparr>"

definition defaultOptions :: GetChatCompletionsOptions where
  "defaultOptions =
     \<lparr> optFunctions = None, optFunctionCall = None, otherOptions = JUndefined \<rparr>"

definition request ::
  "string option \<Rightarrow> OpenAiChatMessage list \<Rightarrow> ApiChatLlmAnswerAwaitedParams" where
  "request q msgs =
     \<lparr> query = q, messages = msgs, options = defaultOptions,
       staticArgsParam = None, credentialsParam = JNull \<rparr>"

definition userMessage :: "string \<Rightarrow> OpenAiChatMessage" where
  "userMessage text =
     \<lparr> role = RoleUser, content = Some text, msgName = None, functionCall = None,
       msgFunctions = None \<rparr>"

definition callMessage :: "string \<Rightarrow> string \<Rightarrow> ChatMessage" where
  "callMessage n args =
     \<lparr> role = RoleAssistant, content = None, msgName = None,
       functionCall = Some \<lparr> callName = n, arguments = args \<rparr>,
       msgFunctions = None \<rparr>"

text \<open>
  The snapshot a catalog search leaves on the conversation when only the base tool is
  active and the resolver returns four tools, and the function-result message that
  carries it.
\<close>

definition fourTools :: "PersistedFunctionDefinition list" where
  "fourTools = [httpTool ''a'', httpTool ''b'', httpTool ''c'', httpTool ''d'']"

definition fourToolSnapshot :: "PersistedFunctionDefinition list" where
  "fourToolSnapshot = persistedFunction makeFindApiSpecAction # fourTools"

definition fourToolResult :: OpenAiChatMessage where
  "fourToolResult =
     \<lparr> role = RoleFunction,
       content = Some (foundFunctionsContent fourTools),
       msgName = Some find_api_spec_action,
       functionCall = None,
       msgFunctions = Some fourToolSnapshot \<rparr>"

section \<open>Facts about the two filters\<close>

lemma uniqueFilter_names:
  "t \<in> set (uniqueFilter seen xs) \<Longrightarrow> name (defn t) \<notin> seen \<and> t \<in> set xs"
  by (induction xs arbitrary: seen) (auto split: if_splits)

lemma uniqueFilter_append:
  "uniqueFilter seen (xs @ ys) =
   uniqueFilter seen xs @ uniqueFilter (seen \<union> (\<lambda>t. name (defn t)) ` set xs) ys"
  by (induction xs arbitrary: seen) (auto simp: insert_absorb)

lemma uniqueFilter_by_position:
  "uniqueFilter seen xs =
   map (\<lambda>i. xs ! i)
     (filter (\<lambda>i. name (defn (xs ! i)) \<notin> seen \<union> (\<lambda>t. name (defn t)) ` set (take i xs))
        [0..<length xs])"
proof (induction xs arbitrary: seen)
  case Nil
  then show ?case by simp
next
  case (Cons x xs)
  have upt: "[0..<length (x # xs)] = 0 # map Suc [0..<length xs]"
    by (simp add: upt_conv_Cons map_Suc_upt del: upt_Suc)
  show ?case
  proof (cases "name (defn x) \<in> seen")
    case True
    then have eq:
      "(\<lambda>i. name (defn (xs ! i)) \<notin> seen \<and> name (defn (xs ! i)) \<noteq> name (defn x) \<and>
            name (defn (xs ! i)) \<notin> (\<lambda>t. name (defn t)) ` set (take i xs))
       = (\<lambda>i. name (defn (xs ! i)) \<notin> seen \<and>
            name (defn (xs ! i)) \<notin> (\<lambda>t. name (defn t)) ` set (take i xs))"
      by (auto simp: fun_eq_iff)
    from True show ?thesis
      unfolding upt
      by (simp add: Cons.IH filter_map comp_def eq del: upt_Suc)
  next
    case False
    have eq:
      "(\<lambda>i. name (defn (xs ! i)) \<notin> seen \<and> name (defn (xs ! i)) \<noteq> name (defn x) \<and>
            name (defn (xs ! i)) \<notin> (\<lambda>t. name (defn t)) ` set (take i xs))
       = (\<lambda>i. name (defn (xs ! i)) \<noteq> name (defn x) \<and> name (defn (xs ! i)) \<notin> seen \<and>
            name (defn (xs ! i)) \<notin> (\<lambda>t. name (defn t)) ` set (take i xs))"
      by (auto simp: fun_eq_iff)
    from False show ?thesis
      unfolding upt
      by (simp add: Cons.IH filter_map comp_def eq del: upt_Suc)
  qed
qed

lemma counterFilter_by_position:
  "counterFilter m B c xs =
   map snd (filter (\<lambda>(counter, tool). int counter \<le> m \<or>
                      find (\<lambda>b. name (defn b) = name (defn tool)) B = None)
              (enumerate c xs))"
  by (induction xs arbitrary: c) (auto simp: Let_def)

text \<open>In the merged list a definition bears a base name only if it is a base definition.\<close>

lemma merged_base_tool:
  assumes "t \<in> set (uniqueFilter {} (B @ D))"
  shows "(find (\<lambda>b. name (defn b) = name (defn t)) B = None) = (t \<notin> set B)"
proof (cases "name (defn t) \<in> (\<lambda>b. name (defn b)) ` set B")
  case True
  from assms have "t \<in> set (uniqueFilter {} B) \<or>
      t \<in> set (uniqueFilter ((\<lambda>b. name (defn b)) ` set B) D)"
    by (simp add: uniqueFilter_append)
  with True have "t \<in> set B"
    using uniqueFilter_names by blast
  moreover from True have "find (\<lambda>b. name (defn b) = name (defn t)) B \<noteq> None"
    by (auto simp: find_None_iff)
  ultimately show ?thesis by simp
next
  case False
  then have "find (\<lambda>b. name (defn b) = name (defn t)) B = None" "t \<notin> set B"
    by (auto simp: find_None_iff image_iff)
  then show ?thesis by simp
qed

lemma filter_name_uniqueFilter:
  "filter (\<lambda>t. name (defn t) = n) (uniqueFilter seen xs) =
   (if n \<in> seen then []
    else case find (\<lambda>t. name (defn t) = n) xs of None \<Rightarrow> [] | Some b \<Rightarrow> [b])"
  by (induction xs arbitrary: seen) auto

lemma counterFilter_append:
  "counterFilter m B c (xs @ ys) =
   counterFilter m B c xs @ counterFilter m B (c + length xs) ys"
  by (induction xs arbitrary: c) (simp_all add: Let_def)

lemma counterFilter_subset: "set (counterFilter m B c xs) \<subseteq> set xs"
  by (induction xs arbitrary: c) (auto simp: Let_def)

lemma find_append_left:
  "find P xs = Some b \<Longrightarrow> find P (xs @ ys) = Some b"
  by (induction xs) (auto split: if_splits)

lemmas window_defs =
  getMaxAvailableFunctionDefinitions_def availableFunctionsCopy_def
  makeAvailableLlmFunctionsFromFunctionDefinitions_def availableLlmFunctionsOf_def
  makeDynamicHttpLlmFunctionFromFunctionDefinition_def baseFunctions_def
  makeFindApiSpecAction_def find_api_spec_action_def emptyHttpRequestArgs_def

lemmas scenario_defs =
  httpTool_def travelQuery_def parisArguments_def weatherResponse_def acceptHeaders_def
  scenarioExternals_def defaultParams_def defaultOptions_def request_def userMessage_def
  callMessage_def

section \<open>The window of available function definitions: claims\<close>

text \<open>
  C1. \<^verbatim>\<open>getMaxAvailableFunctionDefinitions\<close> computes what the specification words:
  base tools followed by the carried tools, deduplicated by name keeping the first
  occurrence; when the number of carried tools (before deduplication) exceeds the cap,
  the merged list is read in reverse with a counter from 0, a tool being kept when the
  counter is at most the cap or the tool is not a base tool, and the result is reversed
  back; otherwise the merged list is returned as it is.
\<close>

theorem getMaxAvailableFunctionDefinitions_refines_spec:
  "getMaxAvailableFunctionDefinitions D B maxDynamic = spec_computeActiveTools D B maxDynamic"
proof -
  have dedup: "availableFunctionsCopy D B = spec_dedupByName (B @ D)"
    by (simp add: availableFunctionsCopy_def spec_dedupByName_def uniqueFilter_by_position)
  have "filter (\<lambda>(counter, tool). int counter \<le> maxDynamic \<or>
                    find (\<lambda>b. name (defn b) = name (defn tool)) B = None)
          (enumerate 0 (rev (availableFunctionsCopy D B)))
      = filter (\<lambda>(counter, tool). int counter \<le> maxDynamic \<or> tool \<notin> set B)
          (enumerate 0 (rev (availableFunctionsCopy D B)))"
  proof (rule filter_cong [OF refl])
    fix p assume p: "p \<in> set (enumerate 0 (rev (availableFunctionsCopy D B)))"
    have "snd p \<in> set (rev (availableFunctionsCopy D B))"
      using p by (metis in_set_zipE enumerate_eq_zip prod.collapse)
    then have "snd p \<in> set (uniqueFilter {} (B @ D))"
      by (simp add: availableFunctionsCopy_def)
    from merged_base_tool [OF this]
    show "(case p of (counter, tool) \<Rightarrow> int counter \<le> maxDynamic \<or>
                    find (\<lambda>b. name (defn b) = name (defn tool)) B = None)
        = (case p of (counter, tool) \<Rightarrow> int counter \<le> maxDynamic \<or> tool \<notin> set B)"
      by (cases p) simp
  qed
  then have "rev (counterFilter maxDynamic B 0 (rev (availableFunctionsCopy D B)))
      = spec_evictionPass B maxDynamic (spec_dedupByName (B @ D))"
    by (simp add: counterFilter_by_position spec_evictionPass_def dedup)
  then show ?thesis
    by (simp add: getMaxAvailableFunctionDefinitions_def spec_computeActiveTools_def
        Let_def dedup)
qed

text \<open>
  The specification's eviction-boundary scenario, cap 2 with four carried tools and the
  one base tool: the four carried tools stay and the base tool goes.
\<close>

theorem getMaxAvailableFunctionDefinitions_refines_spec_witness:
  "spec_computeActiveTools
     [httpTool ''a'', httpTool ''b'', httpTool ''c'', httpTool ''d'']
     (map persistedFunction baseFunctions) 2
   = [httpTool ''a'', httpTool ''b'', httpTool ''c'', httpTool ''d'']"
  unfolding getMaxAvailableFunctionDefinitions_refines_spec [symmetric]
  by (simp add: window_defs scenario_defs)

text \<open>
  The failing input of C2 arises in an ordinary conversation: a catalog search whose
  resolver finds four tools appends the function-result message \<open>fourToolResult\<close>.
\<close>

lemma four_tool_search_turn:
  "handleOpenAiFunctionCall
     (scenarioExternals \<lparr> findApiSpecFunctionDefinition := (\<lambda>q. Inr fourTools) \<rparr>)
     (callMessage find_api_spec_action ''{\"query\":\"travel\"}'')
     (availableLlmFunctionsOf None None JNull [])
     [userMessage ''travel'']
   = (Inr [userMessage ''travel'',
           callMessage find_api_spec_action ''{\"query\":\"travel\"}'',
           fourToolResult],
      [FindApiSpecCall travelQuery])"
  by (simp add: window_defs scenario_defs handleOpenAiFunctionCall_def callFunction_def
      fourToolResult_def fourToolSnapshot_def fourTools_def)

text \<open>
  C2 (the code at a failing input). With the default cap 3, the turn that follows a
  catalog search which found four tools computes an active set without
  \<^verbatim>\<open>find_api_spec_action\<close>: the four found tools are all kept and the base tool, met
  last in the reversed pass with the counter at 4, is dropped. The completion service
  is offered exactly the four.
\<close>

theorem search_tool_evicted:
  "getMaxAvailableFunctionDefinitions fourToolSnapshot (map persistedFunction baseFunctions) 3
     = fourTools
   \<and> find_api_spec_action
       \<notin> set (map llmName (availableLlmFunctionsOf None None JNull fourToolSnapshot))
   \<and> (case answerAwaited scenarioExternals defaultParams
             (request (Some ''book the flight'')
                [userMessage ''travel'',
                 callMessage find_api_spec_action ''{\"query\":\"travel\"}'',
                 fourToolResult]) of
         (result, [ChatCompletionsCall deployment msgs opts]) \<Rightarrow>
           map_option (map name) (optFunctions opts) = Some [''a'', ''b'', ''c'', ''d'']
       | _ \<Rightarrow> False)"
  by (simp add: window_defs scenario_defs answerAwaited_def lastMessageFunctions_def
      getChatMessageFromOpenAiResponse_def Let_def fourToolResult_def fourToolSnapshot_def
      fourTools_def)

text \<open>
  The loss is systematic: whenever the eviction pass runs on a merged list of more than
  \<open>maxDynamic + 1\<close> definitions, the result has no definition named
  \<^verbatim>\<open>find_api_spec_action\<close>.
\<close>

lemma search_tool_dropped_by_eviction:
  assumes evict: "int (length D) > maxDynamic"
    and more: "int (length (availableFunctionsCopy D (map persistedFunction baseFunctions)))
               > maxDynamic + 1"
  shows "find_api_spec_action \<notin> (\<lambda>t. name (defn t)) `
           set (getMaxAvailableFunctionDefinitions D (map persistedFunction baseFunctions)
                  maxDynamic)"
proof -
  let ?s = "persistedFunction makeFindApiSpecAction"
  let ?rest = "uniqueFilter {find_api_spec_action} D"
  have s: "name (defn ?s) = find_api_spec_action"
    by (simp add: makeFindApiSpecAction_def)
  have base: "map persistedFunction baseFunctions = [?s]"
    by (simp add: baseFunctions_def)
  have copy: "availableFunctionsCopy D [?s] = ?s # ?rest"
    by (simp add: availableFunctionsCopy_def s)
  from more have len: "\<not> int (length ?rest) \<le> maxDynamic"
    by (simp add: base copy)
  have "counterFilter maxDynamic [?s] 0 (rev ?rest @ [?s])
        = counterFilter maxDynamic [?s] 0 (rev ?rest)"
    using len by (simp add: counterFilter_append Let_def)
  then have "getMaxAvailableFunctionDefinitions D [?s] maxDynamic
             = rev (counterFilter maxDynamic [?s] 0 (rev ?rest))"
    using evict by (simp add: getMaxAvailableFunctionDefinitions_def copy)
  then have "set (getMaxAvailableFunctionDefinitions D [?s] maxDynamic) \<subseteq> set ?rest"
    using counterFilter_subset [of maxDynamic "[?s]" 0 "rev ?rest"] by simp
  then have sub: "set (getMaxAvailableFunctionDefinitions D (map persistedFunction baseFunctions)
                        maxDynamic) \<subseteq> set ?rest"
    by (simp only: base)
  show ?thesis
  proof
    assume "find_api_spec_action \<in> (\<lambda>t. name (defn t)) `
              set (getMaxAvailableFunctionDefinitions D (map persistedFunction baseFunctions)
                     maxDynamic)"
    then obtain t where "t \<in> set ?rest" and "name (defn t) = find_api_spec_action"
      using sub by auto
    then show False
      using uniqueFilter_names [of t "{find_api_spec_action}" D] by simp
  qed
qed

text \<open>Without eviction the base tool heads the active set.\<close>

lemma search_tool_kept_without_eviction:
  assumes "int (length D) \<le> maxDynamic"
  shows "\<exists>rest. getMaxAvailableFunctionDefinitions D (map persistedFunction baseFunctions)
            maxDynamic = persistedFunction makeFindApiSpecAction # rest"
  using assms by (simp add: getMaxAvailableFunctionDefinitions_def availableFunctionsCopy_def
      baseFunctions_def)

text \<open>The eviction pass keeps of the tools of one name at most what the merge kept.\<close>

lemma filter_counterFilter_empty:
  "filter P xs = [] \<Longrightarrow> filter P (counterFilter m B c xs) = []"
  using counterFilter_subset [of m B c xs] by (auto simp: filter_empty_conv)

lemma filter_counterFilter_single:
  "filter P xs = [b] \<Longrightarrow> filter P (counterFilter m B c xs) \<in> {[], [b]}"
proof (induction xs arbitrary: c)
  case Nil
  then show ?case by simp
next
  case (Cons x xs)
  show ?case
  proof (cases "P x")
    case True
    with Cons.prems have "x = b" "filter P xs = []" by simp_all
    then show ?thesis
      using True filter_counterFilter_empty [of P xs m B "Suc c"] by (simp add: Let_def)
  next
    case False
    with Cons.prems have "filter P xs = [b]" by simp
    from Cons.IH [OF this, of "Suc c"] False show ?thesis by (simp add: Let_def)
  qed
qed

text \<open>
  C6. The merge is the concatenation of the base tools and the carried tools in which a
  position stays exactly when no earlier position holds its name: of every name the
  merged list holds the first occurrence in base-then-carried order and nothing else.
  So when a name \<open>n\<close> occurs both among the base tools and among the carried tools,
  the merged list holds exactly one tool named \<open>n\<close>, the first base tool of that name.
  The list that \<^verbatim>\<open>getMaxAvailableFunctionDefinitions\<close> returns holds that same tool
  and no other of the name when no eviction pass runs, and never a carried tool of the
  name.
\<close>

theorem merge_keeps_base_occurrence:
  "availableFunctionsCopy D B
     = map (\<lambda>i. (B @ D) ! i)
         (filter (\<lambda>i. name (defn ((B @ D) ! i))
                       \<notin> (\<lambda>t. name (defn t)) ` set (take i (B @ D)))
            [0..<length (B @ D)])
   \<and> (\<forall>m. filter (\<lambda>t. name (defn t) = m) (availableFunctionsCopy D B)
            = (case find (\<lambda>t. name (defn t) = m) (B @ D) of None \<Rightarrow> [] | Some t \<Rightarrow> [t]))
   \<and> (n \<in> (\<lambda>t. name (defn t)) ` set B \<and> n \<in> (\<lambda>t. name (defn t)) ` set D
      \<longrightarrow> (\<exists>b. find (\<lambda>t. name (defn t) = n) B = Some b \<and> b \<in> set B
             \<and> filter (\<lambda>t. name (defn t) = n) (availableFunctionsCopy D B) = [b]
             \<and> (\<forall>cap. filter (\<lambda>t. name (defn t) = n)
                         (getMaxAvailableFunctionDefinitions D B cap) \<in> {[], [b]})
             \<and> (\<forall>cap. int (length D) \<le> cap
                   \<longrightarrow> filter (\<lambda>t. name (defn t) = n)
                         (getMaxAvailableFunctionDefinitions D B cap) = [b])))"
proof (intro conjI allI impI)
  show "availableFunctionsCopy D B
     = map (\<lambda>i. (B @ D) ! i)
         (filter (\<lambda>i. name (defn ((B @ D) ! i))
                       \<notin> (\<lambda>t. name (defn t)) ` set (take i (B @ D)))
            [0..<length (B @ D)])"
    unfolding availableFunctionsCopy_def
    by (subst uniqueFilter_by_position) simp
next
  fix m
  show "filter (\<lambda>t. name (defn t) = m) (availableFunctionsCopy D B)
        = (case find (\<lambda>t. name (defn t) = m) (B @ D) of None \<Rightarrow> [] | Some t \<Rightarrow> [t])"
    by (simp add: availableFunctionsCopy_def filter_name_uniqueFilter)
next
  assume shared: "n \<in> (\<lambda>t. name (defn t)) ` set B \<and> n \<in> (\<lambda>t. name (defn t)) ` set D"
  then obtain b where b: "find (\<lambda>t. name (defn t) = n) B = Some b"
    by (cases "find (\<lambda>t. name (defn t) = n) B") (auto simp: find_None_iff)
  then have mem: "b \<in> set B"
    by (auto simp: find_Some_iff)
  have copy: "filter (\<lambda>t. name (defn t) = n) (availableFunctionsCopy D B) = [b]"
    by (simp add: availableFunctionsCopy_def filter_name_uniqueFilter
        find_append_left [OF b])
  have returned: "filter (\<lambda>t. name (defn t) = n)
                    (getMaxAvailableFunctionDefinitions D B cap) \<in> {[], [b]}" for cap
  proof (cases "int (length D) > cap")
    case True
    from copy have "filter (\<lambda>t. name (defn t) = n) (rev (availableFunctionsCopy D B)) = [b]"
      by (simp add: rev_filter [symmetric])
    from filter_counterFilter_single [OF this, of cap B 0] True show ?thesis
      by (auto simp: getMaxAvailableFunctionDefinitions_def rev_filter [symmetric])
  next
    case False
    with copy show ?thesis
      by (simp add: getMaxAvailableFunctionDefinitions_def)
  qed
  have kept: "filter (\<lambda>t. name (defn t) = n)
                (getMaxAvailableFunctionDefinitions D B cap) = [b]"
    if "int (length D) \<le> cap" for cap
    using that copy by (simp add: getMaxAvailableFunctionDefinitions_def)
  from b mem copy returned kept
  show "\<exists>b. find (\<lambda>t. name (defn t) = n) B = Some b \<and> b \<in> set B
          \<and> filter (\<lambda>t. name (defn t) = n) (availableFunctionsCopy D B) = [b]
          \<and> (\<forall>cap. filter (\<lambda>t. name (defn t) = n)
                      (getMaxAvailableFunctionDefinitions D B cap) \<in> {[], [b]})
          \<and> (\<forall>cap. int (length D) \<le> cap
                \<longrightarrow> filter (\<lambda>t. name (defn t) = n)
                      (getMaxAvailableFunctionDefinitions D B cap) = [b])"
    by blast
qed

text \<open>
  Two carried tools, the second reusing the reserved name with another path: the merged
  list is the base tool followed by the first carried tool, and of the reserved name it
  holds the base tool alone.
\<close>

theorem merge_keeps_base_occurrence_witness:
  "availableFunctionsCopy [httpTool ''a'', httpTool find_api_spec_action]
     (map persistedFunction baseFunctions)
   = [persistedFunction makeFindApiSpecAction, httpTool ''a'']
   \<and> filter (\<lambda>t. name (defn t) = ''a'')
       (availableFunctionsCopy [httpTool ''a'', httpTool find_api_spec_action]
          (map persistedFunction baseFunctions))
     = [httpTool ''a'']
   \<and> filter (\<lambda>t. name (defn t) = find_api_spec_action)
       (availableFunctionsCopy [httpTool ''a'', httpTool find_api_spec_action]
          (map persistedFunction baseFunctions))
     = [persistedFunction makeFindApiSpecAction]
   \<and> filter (\<lambda>t. name (defn t) = find_api_spec_action)
       (getMaxAvailableFunctionDefinitions [httpTool ''a'', httpTool find_api_spec_action]
          (map persistedFunction baseFunctions) 3)
     = [persistedFunction makeFindApiSpecAction]"
  using merge_keeps_base_occurrence
    [of "[httpTool ''a'', httpTool find_api_spec_action]"
      "map persistedFunction baseFunctions" find_api_spec_action]
  by (simp add: baseFunctions_def httpTool_def makeFindApiSpecAction_def
      find_api_spec_action_def getMaxAvailableFunctionDefinitions_def
      availableFunctionsCopy_def)

section \<open>Dispatch: claims\<close>

lemmas dispatch_defs =
  handleOpenAiFunctionCall_def callFunction_def responseContent_def
  foundFunctionsContent_def

text \<open>
  C3. A tool-call request whose name matches no function of the active set appends no
  message, raises no error and makes no external call: the conversation comes back as
  it went in.
\<close>

theorem unmatched_call_is_ignored:
  assumes "functionCall responseMessage = Some call"
    and "\<forall>f \<in> set availableLlmFunctions. name (defn (persistedFunction f)) \<noteq> callName call"
  shows "handleOpenAiFunctionCall ext responseMessage availableLlmFunctions newMessages
         = (Inr newMessages, [])"
proof -
  from assms(2)
  have "find (\<lambda>f. name (defn (persistedFunction f)) = callName call) availableLlmFunctions
        = None"
    by (simp add: find_None_iff)
  with assms(1) show ?thesis
    by (simp add: handleOpenAiFunctionCall_def)
qed

theorem unmatched_call_is_ignored_witness:
  "handleOpenAiFunctionCall scenarioExternals (callMessage ''bookHotel'' ''{}'')
     (availableLlmFunctionsOf None None JNull [httpTool ''getWeather''])
     [userMessage ''book a hotel'']
   = (Inr [userMessage ''book a hotel''], [])"
  using unmatched_call_is_ignored
    [of "callMessage ''bookHotel'' ''{}''" "\<lparr> callName = ''bookHotel'', arguments = ''{}'' \<rparr>"
      "availableLlmFunctionsOf None None JNull [httpTool ''getWeather'']"
      scenarioExternals "[userMessage ''book a hotel'']"]
  by (simp add: window_defs scenario_defs)

text \<open>
  C4. When the request resolves to the reserved catalog-search tool, its argument text
  parses and the resolver answers, the conversation gains exactly two messages: the
  tool-call request itself and a function-result message named after the tool, whose
  content lists the found names (or says that nothing was found when the list is empty)
  and whose snapshot is the current active set followed by the found definitions, as a
  set their union. The resolver is the only external call.
\<close>

theorem search_dispatch_extends_snapshot:
  assumes "functionCall responseMessage = Some call"
    and "find (\<lambda>f. name (defn (persistedFunction f)) = callName call) availableLlmFunctions
         = Some makeFindApiSpecAction"
    and "JSON_parse ext (arguments call) = Some parsed"
    and "findApiSpecFunctionDefinition ext parsed = Inr apiSpecActions"
  shows "handleOpenAiFunctionCall ext responseMessage availableLlmFunctions newMessages
         = (Inr (newMessages @
                 [responseMessage,
                  \<lparr> role = RoleFunction,
                    content =
                      Some (if apiSpecActions = []
                            then ''No function found in the API spec. Try asking the user for more information.''
                            else ''Found the following function(s) to use:\<newline>- '' @
                                 join ''\<newline>- '' (map (\<lambda>axn. name (defn axn)) apiSpecActions) @
                                 ''\<newline>\<newline>They have been added to your set of available functions. Execute the function if you have sufficient data. If you need more data, ask the user for it.''),
                    msgName = Some find_api_spec_action,
                    functionCall = None,
                    msgFunctions =
                      Some (map persistedFunction availableLlmFunctions @ apiSpecActions) \<rparr>]),
            [FindApiSpecCall parsed])
       \<and> set (map persistedFunction availableLlmFunctions @ apiSpecActions)
         = persistedFunction ` set availableLlmFunctions \<union> set apiSpecActions"
  using assms
  by (simp add: dispatch_defs makeFindApiSpecAction_def)

text \<open>
  The specification's search-expansion scenario: no dynamic tool is active, the resolver
  returns \<^verbatim>\<open>getWeather\<close> and \<^verbatim>\<open>bookFlight\<close> for the query \<^verbatim>\<open>travel\<close>.
\<close>

theorem search_dispatch_extends_snapshot_witness:
  "handleOpenAiFunctionCall scenarioExternals
     (callMessage find_api_spec_action ''{\"query\":\"travel\"}'')
     (availableLlmFunctionsOf None None JNull [])
     [userMessage ''travel'']
   = (Inr [userMessage ''travel'',
           callMessage find_api_spec_action ''{\"query\":\"travel\"}'',
           \<lparr> role = RoleFunction,
             content = Some (''Found the following function(s) to use:\<newline>- getWeather\<newline>- bookFlight'' @
                             ''\<newline>\<newline>They have been added to your set of available functions. Execute the function if you have sufficient data. If you need more data, ask the user for it.''),
             msgName = Some find_api_spec_action,
             functionCall = None,
             msgFunctions =
               Some [persistedFunction makeFindApiSpecAction,
                     httpTool ''getWeather'', httpTool ''bookFlight''] \<rparr>],
      [FindApiSpecCall travelQuery])"
  using search_dispatch_extends_snapshot
    [of "callMessage find_api_spec_action ''{\"query\":\"travel\"}''"
      "\<lparr> callName = find_api_spec_action, arguments = ''{\"query\":\"travel\"}'' \<rparr>"
      "availableLlmFunctionsOf None None JNull []"
      scenarioExternals travelQuery "[httpTool ''getWeather'', httpTool ''bookFlight'']"
      "[userMessage ''travel'']"]
  by (simp add: window_defs scenario_defs)

text \<open>Argument text that does not parse, or a resolver that rejects, fails the dispatch.\<close>

lemma search_dispatch_malformed_arguments:
  assumes "functionCall responseMessage = Some call"
    and "find (\<lambda>f. name (defn (persistedFunction f)) = callName call) availableLlmFunctions
         = Some makeFindApiSpecAction"
    and "JSON_parse ext (arguments call) = None"
  shows "handleOpenAiFunctionCall ext responseMessage availableLlmFunctions newMessages
         = (Inl SyntaxError, [])"
  using assms by (simp add: dispatch_defs makeFindApiSpecAction_def)

text \<open>
  What a matched dynamic tool does: one HTTP request with verb and path of the
  definition, the static arguments and the credentials, and as dynamic arguments the
  argument text itself; then the request message and a function-result message with the
  response as text and the current active set as snapshot.
\<close>

lemma dynamic_dispatch:
  assumes "functionCall responseMessage = Some call"
    and "find (\<lambda>f. name (defn (persistedFunction f)) = callName call) availableLlmFunctions
         = Some (makeDynamicHttpLlmFunctionFromFunctionDefinition tool staticArgs credentials)"
    and "executeHttpApiRequest ext
           \<lparr> reqHttpVerb = httpVerb tool, resourcePath = path tool,
             staticHttpRequestArgs = staticArgs,
             dynamicHttpRequestArgs = JStr (arguments call),
             apiCredentials = credentials \<rparr> = Inr response"
  shows "handleOpenAiFunctionCall ext responseMessage availableLlmFunctions newMessages
         = (Inr (newMessages @
                 [responseMessage,
                  \<lparr> role = RoleFunction,
                    content = (case response of JStr s \<Rightarrow> Some s
                               | _ \<Rightarrow> JSON_stringify ext (Value response)),
                    msgName = Some (name (defn tool)),
                    functionCall = None,
                    msgFunctions = Some (map persistedFunction availableLlmFunctions) \<rparr>]),
            [HttpApiRequestCall
               \<lparr> reqHttpVerb = httpVerb tool, resourcePath = path tool,
                 staticHttpRequestArgs = staticArgs,
                 dynamicHttpRequestArgs = JStr (arguments call),
                 apiCredentials = credentials \<rparr>])"
  using assms
  by (cases response)
    (simp_all add: dispatch_defs makeDynamicHttpLlmFunctionFromFunctionDefinition_def)

text \<open>
  C5 (the code at a failing input). The model asks for \<^verbatim>\<open>getWeather\<close> with the
  argument text \<^verbatim>\<open>{"queryParameters":{"city":"Paris"}}\<close>. The HTTP executor receives
  that text as a string for its dynamic arguments, not the object it parses to; the two
  appended messages are as the claim describes.
\<close>

theorem dynamic_dispatch_passes_argument_text:
  "handleOpenAiFunctionCall scenarioExternals
     (callMessage ''getWeather'' ''{\"queryParameters\":{\"city\":\"Paris\"}}'')
     (availableLlmFunctionsOf None None JNull [httpTool ''getWeather''])
     [userMessage ''weather in Paris'']
   = (Inr [userMessage ''weather in Paris'',
           callMessage ''getWeather'' ''{\"queryParameters\":{\"city\":\"Paris\"}}'',
           \<lparr> role = RoleFunction,
             content = Some ''{\"temperature\":21}'',
             msgName = Some ''getWeather'',
             functionCall = None,
             msgFunctions =
               Some [persistedFunction makeFindApiSpecAction, httpTool ''getWeather''] \<rparr>],
      [HttpApiRequestCall
         \<lparr> reqHttpVerb = Some ''GET'', resourcePath = Some ''/getWeather'',
           staticHttpRequestArgs = emptyHttpRequestArgs,
           dynamicHttpRequestArgs = JStr ''{\"queryParameters\":{\"city\":\"Paris\"}}'',
           apiCredentials = JNull \<rparr>])
   \<and> JSON_parse scenarioExternals ''{\"queryParameters\":{\"city\":\"Paris\"}}''
       = Some parisArguments
   \<and> JStr ''{\"queryParameters\":{\"city\":\"Paris\"}}'' \<noteq> parisArguments"
  by (simp add: window_defs scenario_defs dispatch_defs)

section \<open>Rebuilding the conversation: claims\<close>

text \<open>
  C7 (as the code has it). The rebuilt conversation is the new system message, then the
  non-system messages of the prior list in their order, then one user message with the
  query when a query is given and is not the empty string, and nothing more otherwise.
  Over the store the result is a fresh array and every array that existed before, the
  prior list among them, is left as it was.
\<close>

theorem rewrite_keeps_non_system_messages:
  "updateConversationWithNewSystemPrompt ext basePrompt fs msgs q ctx
   = \<lparr> role = RoleSystem, content = Some (makeSystemPrompt ext basePrompt fs ctx),
       msgName = None, functionCall = None, msgFunctions = None \<rparr>
     # filter (\<lambda>m. role m \<noteq> RoleSystem) msgs
     @ (case q of
          None \<Rightarrow> []
        | Some text \<Rightarrow>
            if text = [] then []
            else [\<lparr> role = RoleUser, content = Some text,
                    msgName = None, functionCall = None, msgFunctions = None \<rparr>])
   \<and> (prior < length h \<longrightarrow>
        (case updateConversationWithNewSystemPrompt_store ext basePrompt fs h prior q ctx of
           (h', result) \<Rightarrow>
             length h \<le> result \<and> result < length h'
             \<and> h' ! result = updateConversationWithNewSystemPrompt ext basePrompt fs (h ! prior) q ctx
             \<and> take (length h) h' = h))"
  by (auto simp: updateConversationWithNewSystemPrompt_def
      updateConversationWithNewSystemPrompt_store_def truthyQuery_def allocArray_def
      pushArray_def Let_def nth_append split: option.splits)

theorem rewrite_keeps_non_system_messages_witness:
  "updateConversationWithNewSystemPrompt scenarioExternals ''You are helpful.'' []
     [\<lparr> role = RoleSystem, content = Some ''old'', msgName = None, functionCall = None,
        msgFunctions = None \<rparr>,
      userMessage ''hi'']
     (Some ''again'') None
   = [\<lparr> role = RoleSystem, content = Some ''You are helpful.'', msgName = None,
        functionCall = None, msgFunctions = None \<rparr>,
      userMessage ''hi'', userMessage ''again'']
   \<and> fst (updateConversationWithNewSystemPrompt_store scenarioExternals ''You are helpful.'' []
            [[userMessage ''hi'']] 0 (Some ''again'') None) ! 0
     = [userMessage ''hi'']"
  using rewrite_keeps_non_system_messages
    [of scenarioExternals "''You are helpful.''" "[]"
      "[\<lparr> role = RoleSystem, content = Some ''old'', msgName = None, functionCall = None,
          msgFunctions = None \<rparr>,
        userMessage ''hi'']"
      "Some ''again''" None 0 "[[userMessage ''hi'']]"]
  by (simp add: scenario_defs makeSystemPrompt_def
      updateConversationWithNewSystemPrompt_store_def truthyQuery_def allocArray_def
      pushArray_def)

text \<open>
  The claim as stated fails for a query that is given and empty: no user message is
  appended, and the result is that of a turn with no query.
\<close>

theorem rewrite_empty_query_counterexample:
  "updateConversationWithNewSystemPrompt scenarioExternals ''You are helpful.'' []
     [userMessage ''hi''] (Some '''') None
   = [\<lparr> role = RoleSystem, content = Some ''You are helpful.'', msgName = None,
        functionCall = None, msgFunctions = None \<rparr>,
      userMessage ''hi'']
   \<and> updateConversationWithNewSystemPrompt scenarioExternals ''You are helpful.'' []
       [userMessage ''hi''] (Some '''') None
     \<noteq> [\<lparr> role = RoleSystem, content = Some ''You are helpful.'', msgName = None,
          functionCall = None, msgFunctions = None \<rparr>,
        userMessage ''hi'', userMessage '''']"
  by (simp add: updateConversationWithNewSystemPrompt_def truthyQuery_def makeSystemPrompt_def
      userMessage_def)

section \<open>The system prompt: claims\<close>

text \<open>
  C8. When no function of the tool set is dynamic, the system prompt is the base prompt,
  followed when a static request context is given by a line break and the context
  block; the tool-usage instructions are not part of it.
\<close>

theorem prompt_without_dynamic_functions:
  assumes "\<forall>f \<in> set currentFunctions. dynamic f \<noteq> Some True"
  shows "makeSystemPrompt ext basePrompt currentFunctions ctx
         = basePrompt @
           (case ctx of
              None \<Rightarrow> []
            | Some args \<Rightarrow> ''\<newline>'' @ makeUserSystemPromptContext ext args)"
proof -
  from assms have "filter (\<lambda>f. dynamic f = Some True) currentFunctions = []"
    by (simp add: filter_empty_conv)
  then show ?thesis
    by (simp add: makeSystemPrompt_def split: option.splits)
qed

theorem prompt_without_dynamic_functions_witness:
  "dynamic makeFindApiSpecAction = None
   \<and> makeSystemPrompt scenarioExternals ''You are helpful.'' baseFunctions
       (Some \<lparr> headers = Some acceptHeaders, body = None, pathParameters = None,
               queryParameters = None \<rparr>)
     = ''You are helpful.\<newline>The following information is available for you to use for calling functions:\<newline>Headers:\<newline>Accept: json''"
  using prompt_without_dynamic_functions
    [of baseFunctions scenarioExternals "''You are helpful.''"
      "Some \<lparr> headers = Some acceptHeaders, body = None, pathParameters = None,
              queryParameters = None \<rparr>"]
  by (simp add: baseFunctions_def makeFindApiSpecAction_def makeUserSystemPromptContext_def
      contextBlock_def scenarioExternals_def acceptHeaders_def trim_def trimEnd_def
      whiteSpace_def trimStartBy.simps)

text \<open>With a dynamic function in the set the instructions follow the base prompt.\<close>

lemma prompt_with_dynamic_function:
  "makeSystemPrompt ext basePrompt
     [makeDynamicHttpLlmFunctionFromFunctionDefinition tool staticArgs credentials] None
   = basePrompt @ toolUsageInstructions [name (defn tool)]"
  by (simp add: makeSystemPrompt_def makeDynamicHttpLlmFunctionFromFunctionDefinition_def)

section \<open>One turn: claims\<close>

lemma callFunction_error:
  "fst (callFunction ext f args) \<noteq> Inl LastMessageUndefined"
  by (simp add: callFunction_def Let_def split: llm_callable.splits sum.splits)

lemma handleOpenAiFunctionCall_error:
  "fst (handleOpenAiFunctionCall ext responseMessage fs msgs) \<noteq> Inl LastMessageUndefined"
proof -
  have call: "callFunction ext f args \<noteq> (Inl LastMessageUndefined, calls)" for f args calls
    using callFunction_error [of ext f args] by auto
  show ?thesis
    by (auto simp: handleOpenAiFunctionCall_def call
        split: option.splits prod.splits sum.splits unknown.splits)
qed

text \<open>
  Every function a turn offers is the catalog-search function or a dynamic HTTP
  function, so a resolver response is never anything but a list of definitions.
\<close>

lemma available_function_shape:
  assumes "f \<in> set (availableLlmFunctionsOf maxNum staticArgs credentials carried)"
  shows "f = makeFindApiSpecAction \<or>
         (dynamic f = Some True \<and> (\<exists>tool args c. func f = DynamicHttpFunction tool args c))"
  using assms
  by (auto simp: availableLlmFunctionsOf_def makeAvailableLlmFunctionsFromFunctionDefinitions_def
      baseFunctions_def makeDynamicHttpLlmFunctionFromFunctionDefinition_def
      split: option.splits if_splits)

lemma answerAwaited_resolver_cast:
  "fst (answerAwaited ext params req) \<noteq> Inl NotDefinitions"
proof -
  have call: "callFunction ext (DynamicHttpFunction t a c) args \<noteq> (Inl NotDefinitions, calls)"
    for t a c args calls
    by (simp add: callFunction_def Let_def split: sum.splits)
  have find: "callFunction ext FindApiSpecFunction args \<noteq> (Inl NotDefinitions, calls)"
     "callFunction ext FindApiSpecFunction args \<noteq> (Inr (Value v), calls)"
    for args calls v
    by (simp_all add: callFunction_def Let_def split: sum.splits)
  have handle: "handleOpenAiFunctionCall ext m
                   (availableLlmFunctionsOf maxNum staticArgs credentials carried) ms
                \<noteq> (Inl NotDefinitions, calls)"
    for m maxNum staticArgs credentials carried ms calls
  proof -
    have shape: "f = makeFindApiSpecAction \<or>
         (dynamic f = Some True \<and> (\<exists>tool args c. func f = DynamicHttpFunction tool args c))"
      if "find P (availableLlmFunctionsOf maxNum staticArgs credentials carried) = Some f"
      for P f
      using that available_function_shape [of f maxNum staticArgs credentials carried]
      by (auto simp: find_Some_iff)
    show ?thesis
      by (auto simp: handleOpenAiFunctionCall_def call find makeFindApiSpecAction_def
          split: option.splits prod.splits sum.splits unknown.splits dest!: shape)
  qed
  show ?thesis
    by (auto simp: answerAwaited_def Let_def handle getChatMessageFromOpenAiResponse_def
        lastMessageFunctions_def
        split: sum.splits prod.splits list.splits option.splits)
qed

text \<open>
  C9. A response with no choice, or whose first choice carries no message, makes
  \<^verbatim>\<open>getChatMessageFromOpenAiResponse\<close> fail with the no-message error, and a response
  whose first choice carries a message yields that message. When the completion
  service answers a turn with such an unusable response, the turn fails with that error
  after exactly one call of the service and no other external call.
\<close>

theorem no_usable_choice_fails_the_turn:
  "(choices response = [] \<or> (\<exists>c cs. choices response = c # cs \<and> message c = None)
      \<longrightarrow> getChatMessageFromOpenAiResponse response = Inl NoMessageReturned)
   \<and> (\<forall>c cs m. choices response = c # cs \<and> message c = Some m
      \<longrightarrow> getChatMessageFromOpenAiResponse response = Inr m)
   \<and> (messages req \<noteq> []
       \<and> (\<forall>deployment msgs opts. getChatCompletions ext deployment msgs opts = Inr response)
       \<and> getChatMessageFromOpenAiResponse response = Inl NoMessageReturned
      \<longrightarrow> (\<exists>msgs opts. answerAwaited ext params req
              = (Inl NoMessageReturned,
                 [ChatCompletionsCall (deploymentName params) msgs opts])))"
  by (auto simp: getChatMessageFromOpenAiResponse_def answerAwaited_def
      lastMessageFunctions_def Let_def split: list.splits option.splits)

theorem no_usable_choice_fails_the_turn_witness:
  "getChatMessageFromOpenAiResponse \<lparr> choices = [] \<rparr> = Inl NoMessageReturned
   \<and> getChatMessageFromOpenAiResponse
       \<lparr> choices = [\<lparr> message = Some (userMessage ''Hello!'') \<rparr>, \<lparr> message = None \<rparr>] \<rparr>
     = Inr (userMessage ''Hello!'')
   \<and> fst (answerAwaited scenarioExternals defaultParams
            (request (Some ''hi'') [userMessage ''earlier'']))
     = Inl NoMessageReturned
   \<and> length (snd (answerAwaited scenarioExternals defaultParams
                    (request (Some ''hi'') [userMessage ''earlier'']))) = 1"
  using no_usable_choice_fails_the_turn
    [of "\<lparr> choices = [] \<rparr>" "request (Some ''hi'') [userMessage ''earlier'']"
      scenarioExternals defaultParams]
    no_usable_choice_fails_the_turn
    [of "\<lparr> choices = [\<lparr> message = Some (userMessage ''Hello!'') \<rparr>, \<lparr> message = None \<rparr>] \<rparr>"
      "request (Some ''hi'') [userMessage ''earlier'']" scenarioExternals defaultParams]
  by (auto simp: scenarioExternals_def request_def)

text \<open>
  C10. On an empty message list the turn fails at once, before any external call, with
  the error of reading \<^verbatim>\<open>functions\<close> of an undefined last message. On a non-empty
  list that error cannot occur, and the function definitions offered to the completion
  service are those built from the \<^verbatim>\<open>functions\<close> of the last message alone, the empty
  list when it has none.
\<close>

theorem carried_functions_come_from_last_message:
  "(messages req = []
      \<longrightarrow> answerAwaited ext params req = (Inl LastMessageUndefined, []))
   \<and> (messages req \<noteq> []
      \<longrightarrow> fst (answerAwaited ext params req) \<noteq> Inl LastMessageUndefined
        \<and> lastMessageFunctions (messages req)
          = Inr (case msgFunctions (last (messages req)) of None \<Rightarrow> [] | Some fs \<Rightarrow> fs)
        \<and> (\<exists>msgs opts rest.
              snd (answerAwaited ext params req)
                = ChatCompletionsCall (deploymentName params) msgs opts # rest
              \<and> optFunctions opts
                = Some (map (\<lambda>f. defn (persistedFunction f))
                          (availableLlmFunctionsOf (maxNumDynamicFunctions params)
                             (staticArgsParam req) (credentialsParam req)
                             (case msgFunctions (last (messages req)) of
                                None \<Rightarrow> [] | Some fs \<Rightarrow> fs)))))"
proof (cases "messages req = []")
  case True
  then show ?thesis
    by (simp add: answerAwaited_def lastMessageFunctions_def)
next
  case False
  have handle: "handleOpenAiFunctionCall ext m fs ms \<noteq> (Inl LastMessageUndefined, calls)"
    for m fs ms calls
    using handleOpenAiFunctionCall_error [of ext m fs ms] by auto
  have err: "fst (answerAwaited ext params req) \<noteq> Inl LastMessageUndefined"
    using False
    by (auto simp: answerAwaited_def lastMessageFunctions_def Let_def handle
        getChatMessageFromOpenAiResponse_def
        split: sum.splits prod.splits list.splits option.splits)
  have log: "\<exists>msgs opts rest.
      snd (answerAwaited ext params req)
        = ChatCompletionsCall (deploymentName params) msgs opts # rest
      \<and> optFunctions opts
        = Some (map (\<lambda>f. defn (persistedFunction f))
                  (availableLlmFunctionsOf (maxNumDynamicFunctions params)
                     (staticArgsParam req) (credentialsParam req)
                     (case msgFunctions (last (messages req)) of
                        None \<Rightarrow> [] | Some fs \<Rightarrow> fs)))"
    using False
    by (simp add: answerAwaited_def lastMessageFunctions_def Let_def
        split: sum.splits prod.splits)
  from False err log show ?thesis
    by (simp add: lastMessageFunctions_def)
qed

theorem carried_functions_come_from_last_message_witness:
  "answerAwaited scenarioExternals defaultParams (request (Some ''hi'') [])
     = (Inl LastMessageUndefined, [])
   \<and> fst (answerAwaited scenarioExternals defaultParams
            (request None
               [userMessage ''first'',
                (userMessage ''second'')\<lparr> msgFunctions := Some [httpTool ''getWeather''] \<rparr>]))
     \<noteq> Inl LastMessageUndefined
   \<and> lastMessageFunctions
       [(userMessage ''first'')\<lparr> msgFunctions := Some [httpTool ''bookFlight''] \<rparr>,
        (userMessage ''second'')\<lparr> msgFunctions := Some [httpTool ''getWeather''] \<rparr>]
     = Inr [httpTool ''getWeather'']"
  using carried_functions_come_from_last_message
    [of "request (Some ''hi'') []" scenarioExternals defaultParams]
    carried_functions_come_from_last_message
    [of "request None
           [userMessage ''first'',
            (userMessage ''second'')\<lparr> msgFunctions := Some [httpTool ''getWeather''] \<rparr>]"
      scenarioExternals defaultParams]
  by (simp add: request_def lastMessageFunctions_def)

section \<open>A whole turn\<close>

text \<open>
  The specification's end-to-end scenario with a service that answers \<^verbatim>\<open>Hello!\<close>: the
  conversation becomes system, user, assistant, and the assistant's message carries the
  base set as snapshot.
\<close>

lemma plain_answer_turn:
  "fst (answerAwaited
          (scenarioExternals
             \<lparr> getChatCompletions :=
                 (\<lambda>deployment msgs opts.
                    Inr \<lparr> choices =
                            [\<lparr> message =
                                 Some \<lparr> role = RoleAssistant, content = Some ''Hello!'',
                                        msgName = None, functionCall = None,
                                        msgFunctions = None \<rparr> \<rparr>] \<rparr>) \<rparr>)
          defaultParams (request (Some ''hi'') [userMessage ''earlier'']))
   = Inr [\<lparr> role = RoleSystem, content = Some (baseSystemPrompt defaultParams),
            msgName = None, functionCall = None, msgFunctions = None \<rparr>,
          userMessage ''earlier'',
          userMessage ''hi'',
          \<lparr> role = RoleAssistant, content = Some ''Hello!'', msgName = None,
            functionCall = None,
            msgFunctions = Some [persistedFunction makeFindApiSpecAction] \<rparr>]"
  by (simp add: answerAwaited_def lastMessageFunctions_def Let_def window_defs scenario_defs
      getChatMessageFromOpenAiResponse_def updateConversationWithNewSystemPrompt_def
      truthyQuery_def makeSystemPrompt_def)

end
